theory Spec2Isabelle
  imports Main
begin

section \<open>The setup reducer (common/app-state/setup/reducer.js)\<close>

text \<open>
  The reducer works on plain JavaScript objects. A field of the state or of an action
  holds any JavaScript value; the values that matter here are \<open>undefined\<close>, booleans and
  strings.
\<close>

datatype js_value = Undefined | Bool bool | Str string

text \<open>
  The action types are imported from \<open>./action-types\<close>; their string values do not
  matter to the reducer. They are taken to be five pairwise different constants; every
  other type an action can carry is \<open>OTHER\<close> with its name.
\<close>

datatype action_type =
    SETUP_COMPLETED
  | SET_AVATAR_URL
  | SET_DISPLAY_NAME
  | SET_IS_SPOT
  | SET_SHOW_MEETING_TOOLBAR
  | OTHER string

text \<open>
  An action object: its \<open>type\<close> and the payload fields the reducer reads. A field the
  action does not carry reads as \<open>Undefined\<close>. The fields are suffixed to keep them apart
  from the fields of the state.
\<close>

record setup_action =
  type_a :: action_type
  avatarUrl_a :: js_value
  displayName_a :: js_value
  isSpot_a :: js_value
  visible_a :: js_value

record setup_state =
  avatarUrl :: js_value
  completed :: js_value
  displayName :: js_value
  isSpot :: js_value
  showMeetingToolbar :: js_value

definition DEFAULT_STATE :: setup_state where
  "DEFAULT_STATE =
     \<lparr> avatarUrl = Str '''',
       completed = Bool False,
       displayName = Str '''',
       isSpot = Bool False,
       showMeetingToolbar = Bool False \<rparr>"

text \<open>
  \<open>setup (state = DEFAULT_STATE, action)\<close>, named \<open>setup_reducer\<close> here since
  \<open>setup\<close> is a command of Isabelle: the default parameter replaces an
  \<open>undefined\<close> state (\<open>None\<close>) only. Each case of the \<open>switch\<close> spreads the state and
  overwrites one field.
\<close>

definition setup_reducer :: "setup_state option \<Rightarrow> setup_action \<Rightarrow> setup_state" where
  "setup_reducer state_arg action =
     (let state = (case state_arg of None \<Rightarrow> DEFAULT_STATE | Some s \<Rightarrow> s) in
      case type_a action of
        SETUP_COMPLETED \<Rightarrow> state\<lparr>completed := Bool True\<rparr>
      | SET_AVATAR_URL \<Rightarrow> state\<lparr>avatarUrl := avatarUrl_a action\<rparr>
      | SET_DISPLAY_NAME \<Rightarrow> state\<lparr>displayName := displayName_a action\<rparr>
      | SET_IS_SPOT \<Rightarrow> state\<lparr>isSpot := isSpot_a action\<rparr>
      | SET_SHOW_MEETING_TOOLBAR \<Rightarrow> state\<lparr>showMeetingToolbar := visible_a action\<rparr>
      | OTHER t \<Rightarrow> state)"

text \<open>The store feeds the reducer its own result: a sequence of actions is a left fold.\<close>

fun setup_all :: "setup_state \<Rightarrow> setup_action list \<Rightarrow> setup_state" where
  "setup_all s [] = s"
| "setup_all s (a # as) = setup_all (setup_reducer (Some s) a) as"

section \<open>The Spot-TV remote control connection (remote-control actions of Spot-TV)\<close>

subsection \<open>Values, effects and the environment\<close>

text \<open>
  A promise is rejected with a string or with an error object. \<open>Message\<close> is a string
  rejection, \<open>TypeError\<close> the error of reading a property of \<open>undefined\<close>, and
  \<open>TransportError k\<close> stands for the k-th error object of the remote control service,
  whose errors are opaque to this code.
\<close>

datatype error = Message string | TypeError | TransportError nat

text \<open>
  What a promise has come to within the observed run: resolved with a value, rejected
  with an error, or not settled yet.
\<close>

datatype 'a outcome = Resolved 'a | Rejected error | Pending

record room_profile =
  id_rp :: string
  name_rp :: string

record pairing_code_info =
  code :: string
  expires :: int

text \<open>
  The Redux actions this file dispatches, named after their creators. The reducers that
  consume them live in other modules (\<open>common/app-state\<close>, \<open>common/backend\<close>), so the
  store itself is not modelled: what a thunk writes is the sequence of actions it
  dispatches, what it reads from the store is a parameter.
\<close>

datatype action =
    DestroyConnection
  | SetRemoteJoinCode string
  | SetJwt "string option"
  | SetTenant "string option"
  | SetPermanentPairingCode "string option"
  | SetSpotInstanceInfo bool bool string
  | SetDisplayName string
  | AddPairedRemote string string
  | RemovePairedRemote string
  | ClearAllPairedRemotes
  | SetLongLivedPairingCodeInfo pairing_code_info

datatype service_update =
    UNRECOVERABLE_DISCONNECT
  | REMOTE_JOIN_CODE_CHANGE
  | REGISTRATION_UPDATED
  | CLIENT_JOINED
  | CLIENT_LEFT

text \<open>
  The argument of \<open>remoteControlServer.connect\<close>. \<open>backend\<close> tells whether a backend
  service object is passed (\<open>True\<close>) or \<open>null\<close>.
\<close>

record connect_options =
  backend :: bool
  joinAsSpot :: bool
  joinCodeRefreshRate :: nat
  joinCode :: "string option"
  serverConfig :: string

text \<open>
  Everything the code does to the outside, in the order it happens: a dispatched action, a
  call of the remote control service (\<open>addListener\<close>, \<open>connect\<close>, \<open>disconnect\<close>,
  \<open>generateLongLivedPairingCode\<close>), a call of \<open>getJitterDelay\<close> with its argument, and
  a call of \<open>setTimeout\<close> with its delay. Calls of the logger are left out.
\<close>

datatype effect =
    Dispatch action
  | AddListener service_update
  | Connect connect_options
  | Disconnect
  | GenerateLongLivedPairingCode
  | GetJitterDelay nat
  | SetTimeout nat

text \<open>
  What the remote control service answers to one \<open>connect\<close> call: it resolves with a
  room profile (possibly \<open>undefined\<close>), after which \<open>getRemoteJoinCode\<close> and the
  backend's \<open>getTenant\<close> and \<open>getJwt\<close> return the other three values; or it rejects.
\<close>

record connect_reply =
  roomProfile_r :: "room_profile option"
  remoteJoinCode_r :: string
  tenant_r :: "string option"
  jwt_r :: "string option"

datatype connect_answer = Accept connect_reply | Refuse error

datatype code_answer = Issued pairing_code_info | Failed error

text \<open>
  The collaborators from other modules, as parameters: the selectors on the Redux state,
  the failure classification of the remote control service, and \<open>getJitterDelay\<close> (a
  function of the attempt count here; its randomness plays no role in what is proved).
  The code reads the selectors from \<open>getState()\<close> at every attempt; the configuration
  they read is taken to stay the same during a run.
\<close>

record env =
  isBackendEnabled :: bool
  getJoinCodeRefreshRate :: nat
  getRemoteControlServerConfig :: string
  isUnrecoverableRequestError :: "error \<Rightarrow> bool"
  getJitterDelay :: "nat \<Rightarrow> nat"

text \<open>The argument of \<open>createSpotTVRemoteControlConnection\<close>.\<close>

record request =
  pairingCode :: "string option"
  retry :: bool

text \<open>
  The state threaded through the code: the closure variable \<open>initiallyConnected\<close> of one
  \<open>createSpotTVRemoteControlConnection\<close> call, the effects so far, and the answers the
  remote control service will give to the next \<open>connect\<close> calls. When the answers run
  out, the next \<open>connect\<close> call stays pending.
\<close>

record world =
  initiallyConnected :: bool
  effects :: "effect list"
  answers :: "connect_answer list"

text \<open>The object \<open>createConnection\<close> resolves with.\<close>

record connection_result =
  permanentPairingCode :: "string option"
  remoteJoinCode :: string
  roomProfile :: "room_profile option"
  tenant :: "string option"
  jwt :: "string option"

text \<open>JavaScript truthiness of an optional string: \<open>undefined\<close> and the empty string are falsy.\<close>

definition truthy :: "string option \<Rightarrow> bool" where
  "truthy s = (case s of None \<Rightarrow> False | Some v \<Rightarrow> v \<noteq> [])"

definition emit :: "effect \<Rightarrow> world \<Rightarrow> world" where
  "emit x w = w\<lparr>effects := effects w @ [x]\<rparr>"

definition dispatch :: "action \<Rightarrow> world \<Rightarrow> world" where
  "dispatch a w = emit (Dispatch a) w"

subsection \<open>createConnection\<close>

text \<open>
  With a backend and no pairing code the promise is rejected before the remote control
  service is called. Otherwise \<open>connect\<close> is called, and the promise settles as the
  service answers.
\<close>

definition createConnection ::
  "env \<Rightarrow> string option \<Rightarrow> world \<Rightarrow> connection_result outcome \<times> world" where
  "createConnection e code_arg w =
     (let hasBackend = isBackendEnabled e in
      if hasBackend \<and> \<not> truthy code_arg then
        (Rejected (Message ''The pairing code is required when the backend is enabled''), w)
      else
        (let w1 = emit (Connect \<lparr> backend = hasBackend,
                                   joinAsSpot = True,
                                   joinCodeRefreshRate = getJoinCodeRefreshRate e,
                                   joinCode = code_arg,
                                   serverConfig = getRemoteControlServerConfig e \<rparr>) w in
         case answers w1 of
           [] \<Rightarrow> (Pending, w1)
         | Refuse err # rest \<Rightarrow> (Rejected err, w1\<lparr>answers := rest\<rparr>)
         | Accept r # rest \<Rightarrow>
             (Resolved \<lparr> permanentPairingCode = code_arg,
                         remoteJoinCode = remoteJoinCode_r r,
                         roomProfile = roomProfile_r r,
                         tenant = (if hasBackend then tenant_r r else None),
                         jwt = (if hasBackend then jwt_r r else None) \<rparr>,
              w1\<lparr>answers := rest\<rparr>)))"

subsection \<open>The callbacks of one connection instance\<close>

text \<open>
  \<open>onSuccessfulConnect\<close> returns \<open>None\<close> when it returns normally and \<open>Some err\<close> when
  it throws: with the backend enabled it reads \<open>roomProfile.id\<close>, which throws a
  TypeError when the room profile is \<open>undefined\<close>.
\<close>

definition onSuccessfulConnect ::
  "env \<Rightarrow> connection_result \<Rightarrow> world \<Rightarrow> error option \<times> world" where
  "onSuccessfulConnect e result w =
     (let w1 = w\<lparr>initiallyConnected := True\<rparr>;
          w2 = dispatch (SetRemoteJoinCode (remoteJoinCode result)) w1;
          w3 = dispatch (SetJwt (jwt result)) w2;
          w4 = dispatch (SetTenant (tenant result)) w3;
          w5 = dispatch (SetPermanentPairingCode (permanentPairingCode result)) w4 in
      if isBackendEnabled e then
        (case roomProfile result of
           None \<Rightarrow> (Some TypeError, w5)
         | Some rp \<Rightarrow>
             (None, dispatch (SetDisplayName (name_rp rp))
                      (dispatch (SetSpotInstanceInfo True True (id_rp rp)) w5)))
      else (None, w5))"

definition onRemoteConnected :: "string \<Rightarrow> string \<Rightarrow> world \<Rightarrow> world" where
  "onRemoteConnected remote_id remote_type w = dispatch (AddPairedRemote remote_id remote_type) w"

definition onRemoteDisconnected :: "string \<Rightarrow> world \<Rightarrow> world" where
  "onRemoteDisconnected remote_id w = dispatch (RemovePairedRemote remote_id) w"

definition onRegistrationChange :: "string option \<Rightarrow> string option \<Rightarrow> world \<Rightarrow> world" where
  "onRegistrationChange new_jwt new_tenant w =
     dispatch (SetTenant new_tenant) (dispatch (SetJwt new_jwt) w)"

definition onRemoteJoinCodeChange :: "string \<Rightarrow> world \<Rightarrow> world" where
  "onRemoteJoinCodeChange new_code w = dispatch (SetRemoteJoinCode new_code) w"

text \<open>
  \<open>doConnect\<close> is \<open>createAsyncActionWithStates(...).then(onSuccessfulConnect).catch(onDisconnect)\<close>.
  The wrapper \<open>createAsyncActionWithStates\<close> comes from \<open>common/async-actions\<close>; it is
  taken to call \<open>createConnection\<close> once and to settle as that call settles, and the
  request states it dispatches on the way are not recorded. The \<open>catch\<close>
  receives a rejection of \<open>createConnection\<close> as well as an error thrown by
  \<open>onSuccessfulConnect\<close>.

  \<open>onDisconnect\<close> either throws (the promise of \<open>doConnect\<close> is rejected) or returns a
  promise that settles as a new \<open>doConnect\<close> does, started when the timer fires. The
  number \<open>n\<close> is how many of the pending timers fire within the observed run: with none
  left, the promise stays pending after \<open>setTimeout\<close>.
\<close>

fun doConnect :: "env \<Rightarrow> request \<Rightarrow> nat \<Rightarrow> world \<Rightarrow> unit outcome \<times> world"
  and onDisconnect :: "env \<Rightarrow> request \<Rightarrow> nat \<Rightarrow> error \<Rightarrow> world \<Rightarrow> unit outcome \<times> world"
where
  "doConnect e req n w =
     (case createConnection e (pairingCode req) w of
        (Pending, w1) \<Rightarrow> (Pending, w1)
      | (Rejected err, w1) \<Rightarrow> onDisconnect e req n err w1
      | (Resolved result, w1) \<Rightarrow>
          (case onSuccessfulConnect e result w1 of
             (None, w2) \<Rightarrow> (Resolved (), w2)
           | (Some err, w2) \<Rightarrow> onDisconnect e req n err w2))"
| "onDisconnect e req n err w =
     (let w1 = dispatch DestroyConnection w;
          w2 = dispatch (SetRemoteJoinCode '''') w1;
          w3 = dispatch ClearAllPairedRemotes w2 in
      if truthy (pairingCode req) \<and> isUnrecoverableRequestError e err then
        (Rejected err, dispatch (SetPermanentPairingCode (Some '''')) w3)
      else if retry req \<or> initiallyConnected w3 then
        (let jitter = getJitterDelay e 3;
             w4 = emit (SetTimeout jitter) (emit (GetJitterDelay 3) w3) in
         case n of
           0 \<Rightarrow> (Pending, w4)
         | Suc m \<Rightarrow> doConnect e req m w4)
      else (Rejected err, w3))"

subsection \<open>createSpotTVRemoteControlConnection\<close>

text \<open>
  Calling \<open>createSpotTVRemoteControlConnection\<close> creates the closure variable
  \<open>initiallyConnected\<close>, set to \<open>false\<close>, and returns the thunk. \<open>newConnection\<close> is the
  state at that moment, given the answers the remote control service holds ready.
\<close>

definition newConnection :: "connect_answer list \<Rightarrow> world" where
  "newConnection script = \<lparr> initiallyConnected = False, effects = [], answers = script \<rparr>"

text \<open>
  The thunk. \<open>hasConnection\<close> is what \<open>remoteControlServer.hasConnection()\<close> returns
  when the thunk runs.
\<close>

definition createSpotTVRemoteControlConnection ::
  "env \<Rightarrow> request \<Rightarrow> bool \<Rightarrow> nat \<Rightarrow> world \<Rightarrow> unit outcome \<times> world" where
  "createSpotTVRemoteControlConnection e req hasConnection n w =
     (if hasConnection then
        (Rejected (Message ''Called to create connection while connection exists''), w)
      else
        (let w1 = emit (AddListener UNRECOVERABLE_DISCONNECT) w;
             w2 = emit (AddListener REMOTE_JOIN_CODE_CHANGE) w1;
             w3 = emit (AddListener REGISTRATION_UPDATED) w2;
             w4 = emit (AddListener CLIENT_JOINED) w3;
             w5 = emit (AddListener CLIENT_LEFT) w4 in
         doConnect e req n w5))"

text \<open>
  What can happen to one instance during its lifetime: its thunk is dispatched, or the
  remote control service emits one of the five updates the thunk listens to, which runs
  the registered callback. The value a listener returns or throws goes to the emitter and
  is dropped here.
\<close>

datatype stimulus =
    Thunk_dispatched bool nat
  | Unrecoverable_disconnect error nat
  | Remote_join_code_change string
  | Registration_updated "string option" "string option"
  | Client_joined string string
  | Client_left string

fun react :: "env \<Rightarrow> request \<Rightarrow> world \<Rightarrow> stimulus \<Rightarrow> world" where
  "react e req w (Thunk_dispatched hasConnection n) =
     snd (createSpotTVRemoteControlConnection e req hasConnection n w)"
| "react e req w (Unrecoverable_disconnect err n) = snd (onDisconnect e req n err w)"
| "react e req w (Remote_join_code_change c) = onRemoteJoinCodeChange c w"
| "react e req w (Registration_updated j t) = onRegistrationChange j t w"
| "react e req w (Client_joined i k) = onRemoteConnected i k w"
| "react e req w (Client_left i) = onRemoteDisconnected i w"

definition lifetime :: "env \<Rightarrow> request \<Rightarrow> world \<Rightarrow> stimulus list \<Rightarrow> world" where
  "lifetime e req w stimuli = foldl (react e req) w stimuli"

subsection \<open>disconnectSpotTvRemoteControl\<close>

text \<open>
  The thunk takes neither \<open>dispatch\<close> nor \<open>getState\<close>. \<open>closed\<close> is what the promise of
  \<open>remoteControlServer.disconnect()\<close> comes to.
\<close>

definition disconnectSpotTvRemoteControl ::
  "bool \<Rightarrow> unit outcome \<Rightarrow> world \<Rightarrow> unit outcome \<times> world" where
  "disconnectSpotTvRemoteControl hasConnection closed w =
     (if \<not> hasConnection then (Resolved (), w)
      else (closed, emit Disconnect w))"

subsection \<open>Long lived pairing codes\<close>

text \<open>
  \<open>generateLongLivedPairingCode\<close> calls the remote control service and, when that
  resolves, dispatches the new info; the promise resolves with what \<open>dispatch\<close> returns,
  the action. \<open>answer\<close> is the service's answer, \<open>None\<close> while it has not answered.
\<close>

definition generateLongLivedPairingCode ::
  "code_answer option \<Rightarrow> world \<Rightarrow> action option outcome \<times> world" where
  "generateLongLivedPairingCode answer w =
     (let w1 = emit GenerateLongLivedPairingCode w in
      case answer of
        None \<Rightarrow> (Pending, w1)
      | Some (Failed err) \<Rightarrow> (Rejected err, w1)
      | Some (Issued new_info) \<Rightarrow>
          (Resolved (Some (SetLongLivedPairingCodeInfo new_info)),
           dispatch (SetLongLivedPairingCodeInfo new_info) w1))"

text \<open>
  \<open>info\<close> is what \<open>getLongLivedPairingCodeInfo(getState())\<close> returns (\<open>None\<close> when no
  code is stored), \<open>now\<close> is \<open>Date.now()\<close>, both in milliseconds. \<open>expiresIn\<close> is
  \<open>info && (info.expires - Date.now())\<close>; the test \<open>!info || expiresIn < oneHour\<close>
  holds when there is no info, or when there is one and the difference is below the hour.
\<close>

definition generateLongLivedPairingCodeIfExpired ::
  "pairing_code_info option \<Rightarrow> int \<Rightarrow> code_answer option \<Rightarrow> world
     \<Rightarrow> action option outcome \<times> world" where
  "generateLongLivedPairingCodeIfExpired info now answer w =
     (let oneHour = 1000 * 60 * 60;
          expiresIn = map_option (\<lambda>i. expires i - now) info in
      if (case expiresIn of None \<Rightarrow> True | Some d \<Rightarrow> d < oneHour) then
        generateLongLivedPairingCode answer w
      else (Resolved None, w))"

subsection \<open>Reading the effects\<close>

text \<open>
  An effect agrees with attempt count 3 when, being a call of \<open>getJitterDelay\<close>, its
  argument is 3 and, being a call of \<open>setTimeout\<close>, its delay is the jitter delay of
  attempt 3. Every other effect agrees.
\<close>

fun jitter_of_attempt_3 :: "env \<Rightarrow> effect \<Rightarrow> bool" where
  "jitter_of_attempt_3 e (GetJitterDelay k) = (k = 3)"
| "jitter_of_attempt_3 e (SetTimeout d) = (d = getJitterDelay e 3)"
| "jitter_of_attempt_3 e x = True"

subsection \<open>Concrete inputs for the examples\<close>

text \<open>
  An environment where the remote control service classifies exactly its error 401 as
  unrecoverable and the jitter delay of attempt \<open>k\<close> is \<open>500 * k\<close> milliseconds, with
  the backend enabled or not; and an answer of the service to a successful connect.
\<close>

definition example_env :: "bool \<Rightarrow> env" where
  "example_env with_backend =
     \<lparr> isBackendEnabled = with_backend,
       getJoinCodeRefreshRate = 30000,
       getRemoteControlServerConfig = ''xmpp'',
       isUnrecoverableRequestError = (\<lambda>x. x = TransportError 401),
       getJitterDelay = (\<lambda>k. 500 * k) \<rparr>"

definition example_reply :: connect_reply where
  "example_reply =
     \<lparr> roomProfile_r = Some \<lparr> id_rp = ''room-1'', name_rp = ''Lobby'' \<rparr>,
       remoteJoinCode_r = ''123456'',
       tenant_r = Some ''tenant'',
       jwt_r = Some ''jwt'' \<rparr>"

section \<open>Properties of the setup reducer\<close>

lemma setup_keeps_completed:
  "completed s = Bool True \<Longrightarrow> completed (setup_reducer (Some s) a) = Bool True"
  by (cases "type_a a") (simp_all add: setup_reducer_def)

lemma setup_all_keeps_completed:
  "completed s = Bool True \<Longrightarrow> completed (setup_all s as) = Bool True"
proof (induction as arbitrary: s)
  case Nil
  then show ?case by simp
next
  case (Cons a as)
  from Cons.prems have "completed (setup_reducer (Some s) a) = Bool True"
    by (rule setup_keeps_completed)
  then show ?case using Cons.IH by simp
qed

lemma setup_all_append: "setup_all s (as @ bs) = setup_all (setup_all s as) bs"
  by (induction as arbitrary: s) simp_all

text \<open>
  Claim C10. In the setup reducer the \<open>completed\<close> flag is monotonic along every
  sequence of actions: SETUP_COMPLETED sets it to true and no action sets it back, so
  once it is true after some actions it is true after any further ones. Every handled
  action overwrites its own field only, with the payload it carries, and leaves the other
  fields as they are; an action of any other type returns the state unchanged. An
  \<open>undefined\<close> state stands for the default state.
\<close>

theorem setup_completed_monotonic:
  "(type_a a = SETUP_COMPLETED \<longrightarrow> setup_reducer (Some s) a = s\<lparr>completed := Bool True\<rparr>)
   \<and> (type_a a = SET_AVATAR_URL \<longrightarrow> setup_reducer (Some s) a = s\<lparr>avatarUrl := avatarUrl_a a\<rparr>)
   \<and> (type_a a = SET_DISPLAY_NAME \<longrightarrow>
        setup_reducer (Some s) a = s\<lparr>displayName := displayName_a a\<rparr>)
   \<and> (type_a a = SET_IS_SPOT \<longrightarrow> setup_reducer (Some s) a = s\<lparr>isSpot := isSpot_a a\<rparr>)
   \<and> (type_a a = SET_SHOW_MEETING_TOOLBAR \<longrightarrow>
        setup_reducer (Some s) a = s\<lparr>showMeetingToolbar := visible_a a\<rparr>)
   \<and> (type_a a = OTHER t \<longrightarrow> setup_reducer (Some s) a = s)
   \<and> setup_reducer None a = setup_reducer (Some DEFAULT_STATE) a
   \<and> (completed (setup_reducer (Some s) a) = completed s
        \<or> completed (setup_reducer (Some s) a) = Bool True)
   \<and> (completed (setup_all s as) = Bool True \<longrightarrow>
        completed (setup_all s (as @ bs)) = Bool True)"
proof -
  have handled: "completed (setup_reducer (Some s) a) = completed s
      \<or> completed (setup_reducer (Some s) a) = Bool True"
    by (cases "type_a a") (simp_all add: setup_reducer_def)
  have later: "completed (setup_all s as) = Bool True \<longrightarrow>
      completed (setup_all s (as @ bs)) = Bool True"
    by (simp add: setup_all_append setup_all_keeps_completed)
  show ?thesis
    using handled later by (simp add: setup_reducer_def)
qed

theorem setup_completed_monotonic_witness:
  "setup_reducer (Some DEFAULT_STATE)
      \<lparr> type_a = SETUP_COMPLETED, avatarUrl_a = Undefined, displayName_a = Undefined,
        isSpot_a = Undefined, visible_a = Undefined \<rparr>
     = DEFAULT_STATE\<lparr>completed := Bool True\<rparr>
   \<and> completed (setup_all DEFAULT_STATE
        [\<lparr> type_a = SETUP_COMPLETED, avatarUrl_a = Undefined, displayName_a = Undefined,
            isSpot_a = Undefined, visible_a = Undefined \<rparr>]) = Bool True
   \<and> completed (setup_all DEFAULT_STATE
        ([\<lparr> type_a = SETUP_COMPLETED, avatarUrl_a = Undefined, displayName_a = Undefined,
            isSpot_a = Undefined, visible_a = Undefined \<rparr>]
         @ [\<lparr> type_a = SET_IS_SPOT, avatarUrl_a = Undefined, displayName_a = Undefined,
              isSpot_a = Bool False, visible_a = Undefined \<rparr>,
            \<lparr> type_a = OTHER ''RESET'', avatarUrl_a = Undefined, displayName_a = Undefined,
              isSpot_a = Undefined, visible_a = Undefined \<rparr>])) = Bool True"
  using setup_completed_monotonic
    [of "\<lparr> type_a = SETUP_COMPLETED, avatarUrl_a = Undefined, displayName_a = Undefined,
           isSpot_a = Undefined, visible_a = Undefined \<rparr>"
        DEFAULT_STATE "''x''"
        "[\<lparr> type_a = SETUP_COMPLETED, avatarUrl_a = Undefined, displayName_a = Undefined,
            isSpot_a = Undefined, visible_a = Undefined \<rparr>]"
        "[\<lparr> type_a = SET_IS_SPOT, avatarUrl_a = Undefined, displayName_a = Undefined,
              isSpot_a = Bool False, visible_a = Undefined \<rparr>,
            \<lparr> type_a = OTHER ''RESET'', avatarUrl_a = Undefined, displayName_a = Undefined,
              isSpot_a = Undefined, visible_a = Undefined \<rparr>]"]
  by (simp add: setup_reducer_def DEFAULT_STATE_def)

section \<open>Properties of the connection\<close>

subsection \<open>What a run does to the world\<close>

declare doConnect.simps [simp del] onDisconnect.simps [simp del]

lemma emit_simps:
  "effects (emit x w) = effects w @ [x]"
  "initiallyConnected (emit x w) = initiallyConnected w"
  "answers (emit x w) = answers w"
  by (simp_all add: emit_def)

lemma dispatch_simps:
  "effects (dispatch a w) = effects w @ [Dispatch a]"
  "initiallyConnected (dispatch a w) = initiallyConnected w"
  "answers (dispatch a w) = answers w"
  by (simp_all add: dispatch_def emit_def)

text \<open>
  A property of the world that survives each single thing the code does (dispatching an
  action, calling \<open>connect\<close>, asking for the jitter delay of attempt 3 and setting a
  timer with it, setting the flag, using up an answer) survives a whole run.
\<close>

lemma createConnection_preserves:
  assumes con: "\<And>opts w. P w \<Longrightarrow> P (emit (Connect opts) w)"
    and ans: "\<And>w rest. P w \<Longrightarrow> P (w\<lparr>answers := rest\<rparr>)"
    and w: "P w"
  shows "P (snd (createConnection e c w))"
  using w by (simp add: createConnection_def Let_def con ans split: list.split connect_answer.split)

lemma onSuccessfulConnect_preserves:
  assumes dis: "\<And>a w. P w \<Longrightarrow> P (dispatch a w)"
    and flag: "\<And>w. P w \<Longrightarrow> P (w\<lparr>initiallyConnected := True\<rparr>)"
    and w: "P w"
  shows "P (snd (onSuccessfulConnect e r w))"
  using w by (simp add: onSuccessfulConnect_def Let_def dis flag split: option.split)

lemma doConnect_preserves_step:
  assumes dis: "\<And>a w. P w \<Longrightarrow> P (dispatch a w)"
    and con: "\<And>opts w. P w \<Longrightarrow> P (emit (Connect opts) w)"
    and flag: "\<And>w. P w \<Longrightarrow> P (w\<lparr>initiallyConnected := True\<rparr>)"
    and ans: "\<And>w rest. P w \<Longrightarrow> P (w\<lparr>answers := rest\<rparr>)"
    and od: "\<And>err w. P w \<Longrightarrow> P (snd (onDisconnect e req n err w))"
    and w: "P w"
  shows "P (snd (doConnect e req n w))"
proof (cases "createConnection e (pairingCode req) w")
  case (Pair r w1)
  have w1: "P w1"
    using createConnection_preserves [where P = P, OF con ans w, of e "pairingCode req"] Pair
    by simp
  show ?thesis
  proof (cases r)
    case (Resolved result)
    obtain t w2 where s: "onSuccessfulConnect e result w1 = (t, w2)"
      by (cases "onSuccessfulConnect e result w1")
    have w2: "P w2"
      using onSuccessfulConnect_preserves [where P = P, OF dis flag w1, of e result] s by simp
    show ?thesis
      using Pair Resolved s w2 od by (cases t) (simp_all add: doConnect.simps)
  next
    case (Rejected err)
    then show ?thesis using Pair w1 od by (simp add: doConnect.simps)
  next
    case Pending
    then show ?thesis using Pair w1 by (simp add: doConnect.simps)
  qed
qed

lemma onDisconnect_preserves_0:
  assumes dis: "\<And>a w. P w \<Longrightarrow> P (dispatch a w)"
    and jit: "\<And>w. P w \<Longrightarrow> P (emit (GetJitterDelay 3) w)"
    and tim: "\<And>w. P w \<Longrightarrow> P (emit (SetTimeout (getJitterDelay e 3)) w)"
    and w: "P w"
  shows "P (snd (onDisconnect e req 0 err w))"
  using w by (simp add: onDisconnect.simps Let_def dis jit tim)

lemma onDisconnect_preserves_Suc:
  assumes dis: "\<And>a w. P w \<Longrightarrow> P (dispatch a w)"
    and jit: "\<And>w. P w \<Longrightarrow> P (emit (GetJitterDelay 3) w)"
    and tim: "\<And>w. P w \<Longrightarrow> P (emit (SetTimeout (getJitterDelay e 3)) w)"
    and dc: "\<And>w. P w \<Longrightarrow> P (snd (doConnect e req m w))"
    and w: "P w"
  shows "P (snd (onDisconnect e req (Suc m) err w))"
  using w by (simp add: onDisconnect.simps Let_def dis jit tim dc)

lemma doConnect_preserves:
  assumes dis: "\<And>a w. P w \<Longrightarrow> P (dispatch a w)"
    and con: "\<And>opts w. P w \<Longrightarrow> P (emit (Connect opts) w)"
    and jit: "\<And>w. P w \<Longrightarrow> P (emit (GetJitterDelay 3) w)"
    and tim: "\<And>w. P w \<Longrightarrow> P (emit (SetTimeout (getJitterDelay e 3)) w)"
    and flag: "\<And>w. P w \<Longrightarrow> P (w\<lparr>initiallyConnected := True\<rparr>)"
    and ans: "\<And>w rest. P w \<Longrightarrow> P (w\<lparr>answers := rest\<rparr>)"
  shows "P w \<Longrightarrow> P (snd (doConnect e req n w))"
proof (induction n arbitrary: w)
  case 0
  have od: "\<And>err w. P w \<Longrightarrow> P (snd (onDisconnect e req 0 err w))"
    using dis jit tim by (rule onDisconnect_preserves_0 [where P = P])
  show ?case
    using dis con flag ans od "0.prems" by (rule doConnect_preserves_step [where P = P])
next
  case (Suc m)
  have od: "\<And>err w. P w \<Longrightarrow> P (snd (onDisconnect e req (Suc m) err w))"
    using dis jit tim Suc.IH by (rule onDisconnect_preserves_Suc [where P = P])
  show ?case
    using dis con flag ans od Suc.prems by (rule doConnect_preserves_step [where P = P])
qed

lemma onDisconnect_preserves:
  assumes dis: "\<And>a w. P w \<Longrightarrow> P (dispatch a w)"
    and con: "\<And>opts w. P w \<Longrightarrow> P (emit (Connect opts) w)"
    and jit: "\<And>w. P w \<Longrightarrow> P (emit (GetJitterDelay 3) w)"
    and tim: "\<And>w. P w \<Longrightarrow> P (emit (SetTimeout (getJitterDelay e 3)) w)"
    and flag: "\<And>w. P w \<Longrightarrow> P (w\<lparr>initiallyConnected := True\<rparr>)"
    and ans: "\<And>w rest. P w \<Longrightarrow> P (w\<lparr>answers := rest\<rparr>)"
    and w: "P w"
  shows "P (snd (onDisconnect e req n err w))"
proof (cases n)
  case 0
  have "P (snd (onDisconnect e req 0 err w))"
    using dis jit tim w by (rule onDisconnect_preserves_0 [where P = P])
  then show ?thesis using 0 by simp
next
  case (Suc m)
  have dc: "\<And>w. P w \<Longrightarrow> P (snd (doConnect e req m w))"
    using dis con jit tim flag ans by (rule doConnect_preserves [where P = P])
  have "P (snd (onDisconnect e req (Suc m) err w))"
    using dis jit tim dc w by (rule onDisconnect_preserves_Suc [where P = P])
  then show ?thesis using Suc by simp
qed

lemma react_preserves:
  assumes dis: "\<And>a w. P w \<Longrightarrow> P (dispatch a w)"
    and lis: "\<And>u w. P w \<Longrightarrow> P (emit (AddListener u) w)"
    and con: "\<And>opts w. P w \<Longrightarrow> P (emit (Connect opts) w)"
    and jit: "\<And>w. P w \<Longrightarrow> P (emit (GetJitterDelay 3) w)"
    and tim: "\<And>w. P w \<Longrightarrow> P (emit (SetTimeout (getJitterDelay e 3)) w)"
    and flag: "\<And>w. P w \<Longrightarrow> P (w\<lparr>initiallyConnected := True\<rparr>)"
    and ans: "\<And>w rest. P w \<Longrightarrow> P (w\<lparr>answers := rest\<rparr>)"
    and w: "P w"
  shows "P (react e req w x)"
proof (cases x)
  case (Thunk_dispatched hasConnection n)
  have dc: "\<And>w. P w \<Longrightarrow> P (snd (doConnect e req n w))"
    using dis con jit tim flag ans by (rule doConnect_preserves [where P = P])
  show ?thesis
    using Thunk_dispatched w
    by (simp add: createSpotTVRemoteControlConnection_def Let_def lis dc)
next
  case (Unrecoverable_disconnect err n)
  have "P (snd (onDisconnect e req n err w))"
    using dis con jit tim flag ans w by (rule onDisconnect_preserves [where P = P])
  then show ?thesis using Unrecoverable_disconnect by simp
next
  case (Remote_join_code_change c)
  then show ?thesis using w by (simp add: onRemoteJoinCodeChange_def dis)
next
  case (Registration_updated j t)
  then show ?thesis using w by (simp add: onRegistrationChange_def dis)
next
  case (Client_joined i k)
  then show ?thesis using w by (simp add: onRemoteConnected_def dis)
next
  case (Client_left i)
  then show ?thesis using w by (simp add: onRemoteDisconnected_def dis)
qed

lemma lifetime_preserves:
  assumes dis: "\<And>a w. P w \<Longrightarrow> P (dispatch a w)"
    and lis: "\<And>u w. P w \<Longrightarrow> P (emit (AddListener u) w)"
    and con: "\<And>opts w. P w \<Longrightarrow> P (emit (Connect opts) w)"
    and jit: "\<And>w. P w \<Longrightarrow> P (emit (GetJitterDelay 3) w)"
    and tim: "\<And>w. P w \<Longrightarrow> P (emit (SetTimeout (getJitterDelay e 3)) w)"
    and flag: "\<And>w. P w \<Longrightarrow> P (w\<lparr>initiallyConnected := True\<rparr>)"
    and ans: "\<And>w rest. P w \<Longrightarrow> P (w\<lparr>answers := rest\<rparr>)"
  shows "P w \<Longrightarrow> P (lifetime e req w xs)"
proof (induction xs arbitrary: w)
  case Nil
  then show ?case by (simp add: lifetime_def)
next
  case (Cons x xs)
  have "P (react e req w x)"
    using dis lis con jit tim flag ans Cons.prems by (rule react_preserves [where P = P])
  then have "P (lifetime e req (react e req w x) xs)" by (rule Cons.IH)
  then show ?case by (simp add: lifetime_def)
qed

lemma lifetime_append:
  "lifetime e req w (xs @ ys) = lifetime e req (lifetime e req w xs) ys"
  by (simp add: lifetime_def)

subsection \<open>The three ways out of onDisconnect\<close>

lemma onDisconnect_unrecoverable:
  assumes "truthy (pairingCode req)" and "isUnrecoverableRequestError e err"
  shows "onDisconnect e req n err w =
    (Rejected err,
     dispatch (SetPermanentPairingCode (Some ''''))
       (dispatch ClearAllPairedRemotes
         (dispatch (SetRemoteJoinCode '''') (dispatch DestroyConnection w))))"
  using assms by (simp add: onDisconnect.simps Let_def)

lemma onDisconnect_gate_open_0:
  assumes "\<not> (truthy (pairingCode req) \<and> isUnrecoverableRequestError e err)"
    and "retry req \<or> initiallyConnected w"
  shows "onDisconnect e req 0 err w =
    (Pending,
     emit (SetTimeout (getJitterDelay e 3))
       (emit (GetJitterDelay 3)
         (dispatch ClearAllPairedRemotes
           (dispatch (SetRemoteJoinCode '''') (dispatch DestroyConnection w)))))"
  using assms by (auto simp add: onDisconnect.simps Let_def dispatch_simps)

lemma onDisconnect_gate_open_Suc:
  assumes "\<not> (truthy (pairingCode req) \<and> isUnrecoverableRequestError e err)"
    and "retry req \<or> initiallyConnected w"
  shows "onDisconnect e req (Suc m) err w =
    doConnect e req m
      (emit (SetTimeout (getJitterDelay e 3))
        (emit (GetJitterDelay 3)
          (dispatch ClearAllPairedRemotes
            (dispatch (SetRemoteJoinCode '''') (dispatch DestroyConnection w)))))"
  using assms by (auto simp add: onDisconnect.simps Let_def dispatch_simps)

lemma onDisconnect_gate_closed:
  assumes "\<not> (truthy (pairingCode req) \<and> isUnrecoverableRequestError e err)"
    and "\<not> retry req" and "\<not> initiallyConnected w"
  shows "onDisconnect e req n err w =
    (Rejected err,
     dispatch ClearAllPairedRemotes
       (dispatch (SetRemoteJoinCode '''') (dispatch DestroyConnection w)))"
  using assms by (auto simp add: onDisconnect.simps Let_def dispatch_simps)

lemma doConnect_refused:
  assumes "\<not> (isBackendEnabled e \<and> \<not> truthy (pairingCode req))"
    and "answers w = Refuse err # rest"
  shows "doConnect e req n w =
    onDisconnect e req n err
      ((emit (Connect \<lparr> backend = isBackendEnabled e,
                        joinAsSpot = True,
                        joinCodeRefreshRate = getJoinCodeRefreshRate e,
                        joinCode = pairingCode req,
                        serverConfig = getRemoteControlServerConfig e \<rparr>) w)
         \<lparr>answers := rest\<rparr>)"
  using assms by (auto simp add: doConnect.simps createConnection_def Let_def emit_simps)

lemma doConnect_invalid:
  assumes "isBackendEnabled e" and "\<not> truthy (pairingCode req)"
  shows "doConnect e req n w =
    onDisconnect e req n
      (Message ''The pairing code is required when the backend is enabled'') w"
  using assms by (simp add: doConnect.simps createConnection_def)

subsection \<open>The retry gate\<close>

text \<open>
  Claim C1. A connect attempt that fails with an error the remote control service does
  not classify as unrecoverable ends in \<open>onDisconnect\<close>. There a retry is scheduled
  exactly when the caller asked for retries or a connect has succeeded before: the jitter
  delay is computed, a timer is set with it, and when the timer fires \<open>doConnect\<close> runs
  again with the same request, its outcome being the outcome of the whole. With neither,
  the error is thrown to the caller and no timer is set.
\<close>

theorem transient_failure_retry_gate:
  assumes "\<not> isUnrecoverableRequestError e err"
  shows
    "(retry req \<or> initiallyConnected w \<longrightarrow>
        onDisconnect e req 0 err w =
          (Pending,
           emit (SetTimeout (getJitterDelay e 3))
             (emit (GetJitterDelay 3)
               (dispatch ClearAllPairedRemotes
                 (dispatch (SetRemoteJoinCode '''') (dispatch DestroyConnection w)))))
        \<and> onDisconnect e req (Suc m) err w =
          doConnect e req m
            (emit (SetTimeout (getJitterDelay e 3))
              (emit (GetJitterDelay 3)
                (dispatch ClearAllPairedRemotes
                  (dispatch (SetRemoteJoinCode '''') (dispatch DestroyConnection w))))))
     \<and> (\<not> retry req \<and> \<not> initiallyConnected w \<longrightarrow>
        onDisconnect e req n err w =
          (Rejected err,
           dispatch ClearAllPairedRemotes
             (dispatch (SetRemoteJoinCode '''') (dispatch DestroyConnection w))))
     \<and> (\<not> (isBackendEnabled e \<and> \<not> truthy (pairingCode req)) \<and> answers w = Refuse err # rest \<longrightarrow>
        doConnect e req n w =
          onDisconnect e req n err
            ((emit (Connect \<lparr> backend = isBackendEnabled e,
                              joinAsSpot = True,
                              joinCodeRefreshRate = getJoinCodeRefreshRate e,
                              joinCode = pairingCode req,
                              serverConfig = getRemoteControlServerConfig e \<rparr>) w)
               \<lparr>answers := rest\<rparr>))"
proof -
  from assms have transient: "\<not> (truthy (pairingCode req) \<and> isUnrecoverableRequestError e err)"
    by simp
  show ?thesis
    using onDisconnect_gate_open_0 [OF transient, of w]
      onDisconnect_gate_open_Suc [OF transient, of w m]
      onDisconnect_gate_closed [OF transient, of w n]
      doConnect_refused [of e req w err rest n]
    by blast
qed

theorem transient_failure_retry_gate_witness:
  "\<not> isUnrecoverableRequestError (example_env False) (TransportError 503)
   \<and> doConnect (example_env False) \<lparr> pairingCode = None, retry = False \<rparr> 7
        (newConnection [Refuse (TransportError 503)])
      = (Rejected (TransportError 503),
         \<lparr> initiallyConnected = False,
           effects = [Connect \<lparr> backend = False, joinAsSpot = True, joinCodeRefreshRate = 30000,
                                joinCode = None, serverConfig = ''xmpp'' \<rparr>,
                      Dispatch DestroyConnection, Dispatch (SetRemoteJoinCode ''''),
                      Dispatch ClearAllPairedRemotes],
           answers = [] \<rparr>)
   \<and> onDisconnect (example_env False) \<lparr> pairingCode = None, retry = True \<rparr> 0 (TransportError 503)
        (newConnection [])
      = (Pending,
         \<lparr> initiallyConnected = False,
           effects = [Dispatch DestroyConnection, Dispatch (SetRemoteJoinCode ''''),
                      Dispatch ClearAllPairedRemotes, GetJitterDelay 3, SetTimeout 1500],
           answers = [] \<rparr>)
   \<and> onDisconnect (example_env False) \<lparr> pairingCode = None, retry = False \<rparr> 0 (TransportError 503)
        \<lparr> initiallyConnected = True, effects = [], answers = [] \<rparr>
      = (Pending,
         \<lparr> initiallyConnected = True,
           effects = [Dispatch DestroyConnection, Dispatch (SetRemoteJoinCode ''''),
                      Dispatch ClearAllPairedRemotes, GetJitterDelay 3, SetTimeout 1500],
           answers = [] \<rparr>)"
proof -
  have t: "\<not> isUnrecoverableRequestError (example_env False) (TransportError 503)"
    by (simp add: example_env_def)
  note closed_gate = transient_failure_retry_gate [OF t,
      of "\<lparr> pairingCode = None, retry = False \<rparr>" _ _ 7]
  note asked = transient_failure_retry_gate [OF t,
      of "\<lparr> pairingCode = None, retry = True \<rparr>" "newConnection []"]
  note connected = transient_failure_retry_gate [OF t,
      of "\<lparr> pairingCode = None, retry = False \<rparr>"
         "\<lparr> initiallyConnected = True, effects = [], answers = [] \<rparr>"]
  show ?thesis
    using t closed_gate [of "newConnection [Refuse (TransportError 503)]" 0 "[]"]
      closed_gate [of "(emit (Connect \<lparr> backend = False, joinAsSpot = True,
          joinCodeRefreshRate = 30000, joinCode = None, serverConfig = ''xmpp'' \<rparr>)
          (newConnection [Refuse (TransportError 503)]))\<lparr>answers := []\<rparr>" 0 "[]"]
      asked [of 0 0 "[]"] connected [of 0 0 "[]"]
    by (simp add: example_env_def newConnection_def emit_def dispatch_def truthy_def)
qed

subsection \<open>Unrecoverable errors\<close>

text \<open>
  Claim C2, as stated: an error the remote control service classifies as unrecoverable
  never leads to a retry. It fails for a request without pairing code: the classification
  is consulted only after the test of the pairing code, so with \<open>retry\<close> set the error 401
  below, classified unrecoverable, gets a timer like any other error, and the permanent
  pairing code is not cleared.
\<close>

theorem unrecoverable_without_code_retries:
  "isUnrecoverableRequestError (example_env False) (TransportError 401)
   \<and> onDisconnect (example_env False) \<lparr> pairingCode = None, retry = True \<rparr> 0 (TransportError 401)
        (newConnection [])
      = (Pending,
         \<lparr> initiallyConnected = False,
           effects = [Dispatch DestroyConnection, Dispatch (SetRemoteJoinCode ''''),
                      Dispatch ClearAllPairedRemotes, GetJitterDelay 3, SetTimeout 1500],
           answers = [] \<rparr>)"
  by (simp add: onDisconnect.simps example_env_def newConnection_def emit_def dispatch_def
      truthy_def)

text \<open>
  Claim C2, amended. When the request carries a pairing code (a non-empty string), an
  error classified as unrecoverable is never retried, whatever \<open>retry\<close> and
  \<open>initiallyConnected\<close> are and however many timers could fire: the connection state is
  torn down, the permanent pairing code is cleared and the error is thrown to the caller.
  When the request carries no pairing code the classification plays no role: the error
  goes through the retry gate.
\<close>

theorem unrecoverable_with_code_never_retries:
  assumes "isUnrecoverableRequestError e err"
  shows
    "(truthy (pairingCode req) \<longrightarrow>
        onDisconnect e req n err w =
          (Rejected err,
           dispatch (SetPermanentPairingCode (Some ''''))
             (dispatch ClearAllPairedRemotes
               (dispatch (SetRemoteJoinCode '''') (dispatch DestroyConnection w)))))
     \<and> (\<not> truthy (pairingCode req) \<and> (retry req \<or> initiallyConnected w) \<longrightarrow>
        onDisconnect e req 0 err w =
          (Pending,
           emit (SetTimeout (getJitterDelay e 3))
             (emit (GetJitterDelay 3)
               (dispatch ClearAllPairedRemotes
                 (dispatch (SetRemoteJoinCode '''') (dispatch DestroyConnection w)))))
        \<and> onDisconnect e req (Suc m) err w =
          doConnect e req m
            (emit (SetTimeout (getJitterDelay e 3))
              (emit (GetJitterDelay 3)
                (dispatch ClearAllPairedRemotes
                  (dispatch (SetRemoteJoinCode '''') (dispatch DestroyConnection w))))))
     \<and> (\<not> truthy (pairingCode req) \<and> \<not> retry req \<and> \<not> initiallyConnected w \<longrightarrow>
        onDisconnect e req n err w =
          (Rejected err,
           dispatch ClearAllPairedRemotes
             (dispatch (SetRemoteJoinCode '''') (dispatch DestroyConnection w))))"
proof -
  have with_code: "truthy (pairingCode req) \<Longrightarrow> onDisconnect e req n err w =
      (Rejected err,
       dispatch (SetPermanentPairingCode (Some ''''))
         (dispatch ClearAllPairedRemotes
           (dispatch (SetRemoteJoinCode '''') (dispatch DestroyConnection w))))"
    using assms by (simp add: onDisconnect_unrecoverable)
  have without: "\<not> truthy (pairingCode req) \<Longrightarrow>
      \<not> (truthy (pairingCode req) \<and> isUnrecoverableRequestError e err)"
    by simp
  show ?thesis
    using with_code onDisconnect_gate_open_0 [OF without, of w]
      onDisconnect_gate_open_Suc [OF without, of w m]
      onDisconnect_gate_closed [OF without, of w n]
    by blast
qed

theorem unrecoverable_with_code_never_retries_witness:
  "isUnrecoverableRequestError (example_env True) (TransportError 401)
   \<and> truthy (Some ''ABC123'')
   \<and> onDisconnect (example_env True) \<lparr> pairingCode = Some ''ABC123'', retry = True \<rparr> 4
        (TransportError 401) \<lparr> initiallyConnected = True, effects = [], answers = [] \<rparr>
      = (Rejected (TransportError 401),
         \<lparr> initiallyConnected = True,
           effects = [Dispatch DestroyConnection, Dispatch (SetRemoteJoinCode ''''),
                      Dispatch ClearAllPairedRemotes,
                      Dispatch (SetPermanentPairingCode (Some ''''))],
           answers = [] \<rparr>)
   \<and> \<not> truthy None
   \<and> onDisconnect (example_env True) \<lparr> pairingCode = None, retry = False \<rparr> 4
        (TransportError 401) (newConnection [])
      = (Rejected (TransportError 401),
         \<lparr> initiallyConnected = False,
           effects = [Dispatch DestroyConnection, Dispatch (SetRemoteJoinCode ''''),
                      Dispatch ClearAllPairedRemotes],
           answers = [] \<rparr>)
   \<and> onDisconnect (example_env True) \<lparr> pairingCode = None, retry = False \<rparr> 0
        (TransportError 401) \<lparr> initiallyConnected = True, effects = [], answers = [] \<rparr>
      = (Pending,
         \<lparr> initiallyConnected = True,
           effects = [Dispatch DestroyConnection, Dispatch (SetRemoteJoinCode ''''),
                      Dispatch ClearAllPairedRemotes, GetJitterDelay 3, SetTimeout 1500],
           answers = [] \<rparr>)"
proof -
  have u: "isUnrecoverableRequestError (example_env True) (TransportError 401)"
    by (simp add: example_env_def)
  show ?thesis
    using u
      unrecoverable_with_code_never_retries [OF u,
        of "\<lparr> pairingCode = Some ''ABC123'', retry = True \<rparr>" 4
           "\<lparr> initiallyConnected = True, effects = [], answers = [] \<rparr>" 0]
      unrecoverable_with_code_never_retries [OF u,
        of "\<lparr> pairingCode = None, retry = False \<rparr>" 4 "newConnection []" 0]
      unrecoverable_with_code_never_retries [OF u,
        of "\<lparr> pairingCode = None, retry = False \<rparr>" 0
           "\<lparr> initiallyConnected = True, effects = [], answers = [] \<rparr>" 0]
    by (simp add: newConnection_def emit_def dispatch_def truthy_def example_env_def)
qed

subsection \<open>A backend without pairing code\<close>

lemma invalid_retry_loop:
  assumes b: "isBackendEnabled e" and c: "\<not> truthy (pairingCode req)"
  shows "retry req \<or> initiallyConnected w \<Longrightarrow>
    onDisconnect e req n
      (Message ''The pairing code is required when the backend is enabled'') w =
    (Pending,
     w\<lparr>effects := effects w @
         concat (replicate (Suc n)
           [Dispatch DestroyConnection, Dispatch (SetRemoteJoinCode ''''),
            Dispatch ClearAllPairedRemotes, GetJitterDelay 3,
            SetTimeout (getJitterDelay e 3)])\<rparr>)"
proof (induction n arbitrary: w)
  case 0
  have t: "\<not> (truthy (pairingCode req) \<and> isUnrecoverableRequestError e
      (Message ''The pairing code is required when the backend is enabled''))"
    using c by simp
  show ?case
    using onDisconnect_gate_open_0 [OF t "0.prems"]
    by (simp add: emit_def dispatch_def)
next
  case (Suc m)
  let ?msg = "Message ''The pairing code is required when the backend is enabled''"
  let ?w = "emit (SetTimeout (getJitterDelay e 3))
      (emit (GetJitterDelay 3)
        (dispatch ClearAllPairedRemotes
          (dispatch (SetRemoteJoinCode '''') (dispatch DestroyConnection w))))"
  have t: "\<not> (truthy (pairingCode req) \<and> isUnrecoverableRequestError e ?msg)"
    using c by simp
  have gate: "retry req \<or> initiallyConnected ?w"
    using Suc.prems by (simp add: emit_simps dispatch_simps)
  have "onDisconnect e req (Suc m) ?msg w = doConnect e req m ?w"
    by (rule onDisconnect_gate_open_Suc [OF t Suc.prems])
  also have "\<dots> = onDisconnect e req m ?msg ?w"
    by (rule doConnect_invalid [OF b c])
  also have "\<dots> = (Pending,
     ?w\<lparr>effects := effects ?w @
         concat (replicate (Suc m)
           [Dispatch DestroyConnection, Dispatch (SetRemoteJoinCode ''''),
            Dispatch ClearAllPairedRemotes, GetJitterDelay 3,
            SetTimeout (getJitterDelay e 3)])\<rparr>)"
    by (rule Suc.IH [OF gate])
  finally show ?case
    by (simp add: emit_def dispatch_def)
qed

text \<open>
  Claim C3, as stated: with the backend enabled and no pairing code the connect fails at
  once with the validation error. It fails for a request that asks for retries: the
  rejection of \<open>createConnection\<close> is caught by \<open>onDisconnect\<close>, which sets a timer
  and tries again. After two timers the promise of the thunk is still pending and a third
  timer is set; the answer the remote control service holds ready is never asked for.
\<close>

theorem invalid_request_with_retry_keeps_pending:
  "isBackendEnabled (example_env True)
   \<and> createSpotTVRemoteControlConnection (example_env True)
        \<lparr> pairingCode = None, retry = True \<rparr> False 2 (newConnection [Accept example_reply])
      = (Pending,
         \<lparr> initiallyConnected = False,
           effects = [AddListener UNRECOVERABLE_DISCONNECT, AddListener REMOTE_JOIN_CODE_CHANGE,
                      AddListener REGISTRATION_UPDATED, AddListener CLIENT_JOINED,
                      AddListener CLIENT_LEFT,
                      Dispatch DestroyConnection, Dispatch (SetRemoteJoinCode ''''),
                      Dispatch ClearAllPairedRemotes, GetJitterDelay 3, SetTimeout 1500,
                      Dispatch DestroyConnection, Dispatch (SetRemoteJoinCode ''''),
                      Dispatch ClearAllPairedRemotes, GetJitterDelay 3, SetTimeout 1500,
                      Dispatch DestroyConnection, Dispatch (SetRemoteJoinCode ''''),
                      Dispatch ClearAllPairedRemotes, GetJitterDelay 3, SetTimeout 1500],
           answers = [Accept example_reply] \<rparr>)"
  by (simp add: createSpotTVRemoteControlConnection_def doConnect.simps onDisconnect.simps
      createConnection_def example_env_def newConnection_def emit_def dispatch_def truthy_def)

text \<open>
  Claim C3, amended. With the backend enabled and no pairing code supplied, every connect
  attempt of the request is rejected at once with the validation error, and the remote
  control service's \<open>connect\<close> is never called for the request. The rejection reaches
  the caller when the request does not ask for retries and no connect has succeeded
  before. Otherwise it is handled like any failed attempt: a timer is set with the jitter
  delay, the next attempt fails the same way, and the promise of the caller stays pending
  however many timers fire.
\<close>

theorem invalid_request_never_connects:
  assumes "isBackendEnabled e" and "\<not> truthy (pairingCode req)"
  shows
    "createConnection e (pairingCode req) w =
       (Rejected (Message ''The pairing code is required when the backend is enabled''), w)
     \<and> (\<not> retry req \<and> \<not> initiallyConnected w \<longrightarrow>
        createSpotTVRemoteControlConnection e req False n w =
          (Rejected (Message ''The pairing code is required when the backend is enabled''),
           w\<lparr>effects := effects w @
             [AddListener UNRECOVERABLE_DISCONNECT, AddListener REMOTE_JOIN_CODE_CHANGE,
              AddListener REGISTRATION_UPDATED, AddListener CLIENT_JOINED,
              AddListener CLIENT_LEFT,
              Dispatch DestroyConnection, Dispatch (SetRemoteJoinCode ''''),
              Dispatch ClearAllPairedRemotes]\<rparr>))
     \<and> (retry req \<or> initiallyConnected w \<longrightarrow>
        createSpotTVRemoteControlConnection e req False n w =
          (Pending,
           w\<lparr>effects := effects w @
             [AddListener UNRECOVERABLE_DISCONNECT, AddListener REMOTE_JOIN_CODE_CHANGE,
              AddListener REGISTRATION_UPDATED, AddListener CLIENT_JOINED,
              AddListener CLIENT_LEFT] @
             concat (replicate (Suc n)
               [Dispatch DestroyConnection, Dispatch (SetRemoteJoinCode ''''),
                Dispatch ClearAllPairedRemotes, GetJitterDelay 3,
                SetTimeout (getJitterDelay e 3)])\<rparr>))"
proof -
  let ?msg = "Message ''The pairing code is required when the backend is enabled''"
  let ?w = "emit (AddListener CLIENT_LEFT)
      (emit (AddListener CLIENT_JOINED)
        (emit (AddListener REGISTRATION_UPDATED)
          (emit (AddListener REMOTE_JOIN_CODE_CHANGE)
            (emit (AddListener UNRECOVERABLE_DISCONNECT) w))))"
  have thunk: "createSpotTVRemoteControlConnection e req False n w = onDisconnect e req n ?msg ?w"
    by (simp add: createSpotTVRemoteControlConnection_def Let_def doConnect_invalid [OF assms])
  have t: "\<not> (truthy (pairingCode req) \<and> isUnrecoverableRequestError e ?msg)"
    using assms(2) by simp
  have flag: "initiallyConnected ?w = initiallyConnected w"
    by (simp add: emit_simps)
  have first: "createConnection e (pairingCode req) w = (Rejected ?msg, w)"
    using assms by (simp add: createConnection_def)
  have closed_gate: "\<not> retry req \<and> \<not> initiallyConnected w \<longrightarrow>
      onDisconnect e req n ?msg ?w =
        (Rejected ?msg,
         dispatch ClearAllPairedRemotes
           (dispatch (SetRemoteJoinCode '''') (dispatch DestroyConnection ?w)))"
    using onDisconnect_gate_closed [OF t, of ?w n] flag by simp
  have open_gate: "retry req \<or> initiallyConnected w \<longrightarrow>
      onDisconnect e req n ?msg ?w =
        (Pending,
         ?w\<lparr>effects := effects ?w @
           concat (replicate (Suc n)
             [Dispatch DestroyConnection, Dispatch (SetRemoteJoinCode ''''),
              Dispatch ClearAllPairedRemotes, GetJitterDelay 3,
              SetTimeout (getJitterDelay e 3)])\<rparr>)"
    using invalid_retry_loop [OF assms, of ?w n] flag by simp
  show ?thesis
    using first thunk closed_gate open_gate
    by (simp add: emit_def dispatch_def)
qed

theorem invalid_request_never_connects_witness:
  "isBackendEnabled (example_env True) \<and> \<not> truthy (Some '''')
   \<and> createConnection (example_env True) (Some '''') (newConnection [Accept example_reply])
      = (Rejected (Message ''The pairing code is required when the backend is enabled''),
         newConnection [Accept example_reply])
   \<and> createSpotTVRemoteControlConnection (example_env True)
        \<lparr> pairingCode = Some '''', retry = False \<rparr> False 3 (newConnection [Accept example_reply])
      = (Rejected (Message ''The pairing code is required when the backend is enabled''),
         \<lparr> initiallyConnected = False,
           effects = [AddListener UNRECOVERABLE_DISCONNECT, AddListener REMOTE_JOIN_CODE_CHANGE,
                      AddListener REGISTRATION_UPDATED, AddListener CLIENT_JOINED,
                      AddListener CLIENT_LEFT,
                      Dispatch DestroyConnection, Dispatch (SetRemoteJoinCode ''''),
                      Dispatch ClearAllPairedRemotes],
           answers = [Accept example_reply] \<rparr>)
   \<and> createSpotTVRemoteControlConnection (example_env True)
        \<lparr> pairingCode = Some '''', retry = True \<rparr> False 1 (newConnection [Accept example_reply])
      = (Pending,
         \<lparr> initiallyConnected = False,
           effects = [AddListener UNRECOVERABLE_DISCONNECT, AddListener REMOTE_JOIN_CODE_CHANGE,
                      AddListener REGISTRATION_UPDATED, AddListener CLIENT_JOINED,
                      AddListener CLIENT_LEFT,
                      Dispatch DestroyConnection, Dispatch (SetRemoteJoinCode ''''),
                      Dispatch ClearAllPairedRemotes, GetJitterDelay 3, SetTimeout 1500,
                      Dispatch DestroyConnection, Dispatch (SetRemoteJoinCode ''''),
                      Dispatch ClearAllPairedRemotes, GetJitterDelay 3, SetTimeout 1500],
           answers = [Accept example_reply] \<rparr>)"
proof -
  have b: "isBackendEnabled (example_env True)"
    by (simp add: example_env_def)
  have c: "\<not> truthy (pairingCode \<lparr> pairingCode = Some '''', retry = False \<rparr>)"
    "\<not> truthy (pairingCode \<lparr> pairingCode = Some '''', retry = True \<rparr>)"
    by (simp_all add: truthy_def)
  show ?thesis
    using b c
      invalid_request_never_connects [OF b c(1), of "newConnection [Accept example_reply]" 3]
      invalid_request_never_connects [OF b c(2), of "newConnection [Accept example_reply]" 1]
    by (simp add: newConnection_def example_env_def)
qed

subsection \<open>The flag initiallyConnected\<close>

lemma doConnect_cases:
  obtains (pending) w1 where "doConnect e req n w = (Pending, w1)"
  | (rejected) err w1 where "doConnect e req n w = onDisconnect e req n err w1"
  | (connected) result w1 where
      "doConnect e req n w = (Resolved (), snd (onSuccessfulConnect e result w1))"
  | (threw) result w1 err where
      "doConnect e req n w = onDisconnect e req n err (snd (onSuccessfulConnect e result w1))"
proof (cases "createConnection e (pairingCode req) w")
  case (Pair r w1)
  show ?thesis
  proof (cases r)
    case (Resolved result)
    show ?thesis
    proof (cases "onSuccessfulConnect e result w1")
      case inner: (Pair t w2)
      show ?thesis
      proof (cases t)
        case None
        then have "doConnect e req n w = (Resolved (), snd (onSuccessfulConnect e result w1))"
          using Pair Resolved inner by (simp add: doConnect.simps)
        then show ?thesis by (rule connected)
      next
        case (Some err)
        then have "doConnect e req n w =
            onDisconnect e req n err (snd (onSuccessfulConnect e result w1))"
          using Pair Resolved inner by (simp add: doConnect.simps)
        then show ?thesis by (rule threw)
      qed
    qed
  next
    case (Rejected err)
    then have "doConnect e req n w = onDisconnect e req n err w1"
      using Pair by (simp add: doConnect.simps)
    then show ?thesis by (rule rejected)
  next
    case Pending
    then have "doConnect e req n w = (Pending, w1)"
      using Pair by (simp add: doConnect.simps)
    then show ?thesis by (rule pending)
  qed
qed

lemma onSuccessfulConnect_sets_flag:
  "initiallyConnected (snd (onSuccessfulConnect e result w))"
  by (simp add: onSuccessfulConnect_def Let_def dispatch_simps split: option.split)

lemma onDisconnect_0_not_resolved: "fst (onDisconnect e req 0 err w) \<noteq> Resolved ()"
  by (simp add: onDisconnect.simps Let_def)

lemma resolved_sets_flag:
  "fst (doConnect e req n w) = Resolved () \<Longrightarrow> initiallyConnected (snd (doConnect e req n w))"
proof (induction n arbitrary: w)
  case 0
  show ?case
  proof (cases rule: doConnect_cases [of e req 0 w])
    case (pending w1)
    then show ?thesis using "0.prems" by simp
  next
    case (rejected err w1)
    then show ?thesis using "0.prems" onDisconnect_0_not_resolved by simp
  next
    case (connected result w1)
    then show ?thesis by (simp add: onSuccessfulConnect_sets_flag)
  next
    case (threw result w1 err)
    then show ?thesis using "0.prems" onDisconnect_0_not_resolved by simp
  qed
next
  case (Suc m)
  have od: "initiallyConnected (snd (onDisconnect e req (Suc m) err v))"
    if r: "fst (onDisconnect e req (Suc m) err v) = Resolved ()" for err v
  proof -
    consider (unrecoverable) "truthy (pairingCode req)" "isUnrecoverableRequestError e err"
      | (gate_open) "\<not> (truthy (pairingCode req) \<and> isUnrecoverableRequestError e err)"
          "retry req \<or> initiallyConnected v"
      | (gate_closed) "\<not> (truthy (pairingCode req) \<and> isUnrecoverableRequestError e err)"
          "\<not> retry req" "\<not> initiallyConnected v"
      by blast
    then show ?thesis
    proof cases
      case unrecoverable
      then show ?thesis using r by (simp add: onDisconnect_unrecoverable)
    next
      case gate_open
      then show ?thesis using r Suc.IH by (simp add: onDisconnect_gate_open_Suc)
    next
      case gate_closed
      then show ?thesis using r by (simp add: onDisconnect_gate_closed)
    qed
  qed
  show ?case
  proof (cases rule: doConnect_cases [of e req "Suc m" w])
    case (pending w1)
    then show ?thesis using Suc.prems by simp
  next
    case (rejected err w1)
    then show ?thesis using Suc.prems od by simp
  next
    case (connected result w1)
    then show ?thesis by (simp add: onSuccessfulConnect_sets_flag)
  next
    case (threw result w1 err)
    then show ?thesis using Suc.prems od by simp
  qed
qed

lemma lifetime_keeps_flag:
  "initiallyConnected w \<Longrightarrow> initiallyConnected (lifetime e req w xs)"
  by (rule lifetime_preserves [where P = initiallyConnected])
     (simp_all add: emit_simps dispatch_simps)

text \<open>
  Claim C4. For one instance the flag \<open>initiallyConnected\<close> starts false, is true after
  \<open>onSuccessfulConnect\<close> has run, hence whenever the promise of the thunk is resolved, and
  is never reset: once true at some point of the lifetime of the instance, it is true
  after whatever happens next (further dispatches of the thunk, disconnects, retries,
  updates of the remote control service).
\<close>

theorem initiallyConnected_monotonic:
  "\<not> initiallyConnected (newConnection script)
   \<and> initiallyConnected (snd (onSuccessfulConnect e result w))
   \<and> (fst (createSpotTVRemoteControlConnection e req hasConnection n w) = Resolved () \<longrightarrow>
        initiallyConnected (snd (createSpotTVRemoteControlConnection e req hasConnection n w)))
   \<and> (initiallyConnected (lifetime e req w xs) \<longrightarrow>
        initiallyConnected (lifetime e req w (xs @ ys)))"
proof -
  have thunk: "fst (createSpotTVRemoteControlConnection e req hasConnection n w) = Resolved () \<longrightarrow>
      initiallyConnected (snd (createSpotTVRemoteControlConnection e req hasConnection n w))"
    using resolved_sets_flag
    by (simp add: createSpotTVRemoteControlConnection_def Let_def)
  show ?thesis
    using thunk
    by (simp add: newConnection_def onSuccessfulConnect_sets_flag lifetime_append
        lifetime_keeps_flag)
qed

theorem initiallyConnected_monotonic_witness:
  "fst (createSpotTVRemoteControlConnection (example_env False)
          \<lparr> pairingCode = None, retry = False \<rparr> False 0 (newConnection [Accept example_reply]))
     = Resolved ()
   \<and> initiallyConnected
       (snd (createSpotTVRemoteControlConnection (example_env False)
          \<lparr> pairingCode = None, retry = False \<rparr> False 0 (newConnection [Accept example_reply])))
   \<and> \<not> initiallyConnected
       (lifetime (example_env False) \<lparr> pairingCode = None, retry = False \<rparr>
          (newConnection [Refuse (TransportError 503), Accept example_reply])
          [Thunk_dispatched False 0])
   \<and> initiallyConnected
       (lifetime (example_env False) \<lparr> pairingCode = None, retry = False \<rparr>
          (newConnection [Refuse (TransportError 503), Accept example_reply])
          [Thunk_dispatched False 0, Thunk_dispatched False 0])
   \<and> initiallyConnected
       (lifetime (example_env False) \<lparr> pairingCode = None, retry = False \<rparr>
          (newConnection [Refuse (TransportError 503), Accept example_reply])
          ([Thunk_dispatched False 0, Thunk_dispatched False 0]
           @ [Unrecoverable_disconnect (TransportError 503) 1, Client_left ''remote'',
              Unrecoverable_disconnect (TransportError 401) 0, Thunk_dispatched True 0]))"
proof -
  let ?e = "example_env False"
  let ?req = "\<lparr> pairingCode = None, retry = False \<rparr>"
  let ?w = "newConnection [Refuse (TransportError 503), Accept example_reply]"
  have before: "\<not> initiallyConnected (lifetime ?e ?req ?w [Thunk_dispatched False 0])"
    by (simp add: lifetime_def createSpotTVRemoteControlConnection_def doConnect.simps
        onDisconnect.simps createConnection_def onSuccessfulConnect_def example_env_def
        newConnection_def emit_def dispatch_def truthy_def)
  have after: "initiallyConnected
      (lifetime ?e ?req ?w [Thunk_dispatched False 0, Thunk_dispatched False 0])"
    by (simp add: lifetime_def createSpotTVRemoteControlConnection_def doConnect.simps
        onDisconnect.simps createConnection_def onSuccessfulConnect_def example_env_def
        newConnection_def emit_def dispatch_def truthy_def example_reply_def)
  have resolved: "fst (createSpotTVRemoteControlConnection ?e ?req False 0
      (newConnection [Accept example_reply])) = Resolved ()"
    by (simp add: createSpotTVRemoteControlConnection_def doConnect.simps
        createConnection_def onSuccessfulConnect_def example_env_def
        newConnection_def emit_def dispatch_def truthy_def)
  show ?thesis
    using before after resolved
      initiallyConnected_monotonic [of "[]" ?e
        "\<lparr> permanentPairingCode = None, remoteJoinCode = ''123456'', roomProfile = None,
           tenant = None, jwt = None \<rparr>" "newConnection [Accept example_reply]" ?req False 0
        "[]" "[]"]
      initiallyConnected_monotonic [of "[]" ?e
        "\<lparr> permanentPairingCode = None, remoteJoinCode = ''123456'', roomProfile = None,
           tenant = None, jwt = None \<rparr>" ?w ?req False 0
        "[Thunk_dispatched False 0, Thunk_dispatched False 0]"
        "[Unrecoverable_disconnect (TransportError 503) 1, Client_left ''remote'',
          Unrecoverable_disconnect (TransportError 401) 0, Thunk_dispatched True 0]"]
    by simp
qed

subsection \<open>Connecting while a connection exists\<close>

text \<open>
  Claim C5. When the thunk runs while the remote control service reports a connection,
  it returns a promise rejected with the already-connected message. Nothing else happens:
  no listener is registered, \<open>connect\<close> is not called, no action is dispatched, and the
  flag and the pending answers of the service are as before.
\<close>

theorem connect_while_connected_rejects:
  assumes "hasConnection"
  shows "createSpotTVRemoteControlConnection e req hasConnection n w =
    (Rejected (Message ''Called to create connection while connection exists''), w)"
  using assms by (simp add: createSpotTVRemoteControlConnection_def)

theorem connect_while_connected_rejects_witness:
  "createSpotTVRemoteControlConnection (example_env True)
      \<lparr> pairingCode = Some ''ABC123'', retry = True \<rparr> True 5
      \<lparr> initiallyConnected = True, effects = [Dispatch (SetRemoteJoinCode ''123456'')],
        answers = [Accept example_reply] \<rparr>
    = (Rejected (Message ''Called to create connection while connection exists''),
       \<lparr> initiallyConnected = True, effects = [Dispatch (SetRemoteJoinCode ''123456'')],
         answers = [Accept example_reply] \<rparr>)"
  using connect_while_connected_rejects [of True "example_env True"
      "\<lparr> pairingCode = Some ''ABC123'', retry = True \<rparr>" 5
      "\<lparr> initiallyConnected = True, effects = [Dispatch (SetRemoteJoinCode ''123456'')],
         answers = [Accept example_reply] \<rparr>"]
  by simp

subsection \<open>The attempt count of the jitter delay\<close>

lemma lifetime_jitter_of_attempt_3:
  "list_all (jitter_of_attempt_3 e) (effects w) \<Longrightarrow>
   list_all (jitter_of_attempt_3 e) (effects (lifetime e req w xs))"
  by (rule lifetime_preserves [where P = "\<lambda>w. list_all (jitter_of_attempt_3 e) (effects w)"])
     (simp_all add: emit_simps dispatch_simps)

text \<open>
  Claim C8. Every retry computes its delay by calling \<open>getJitterDelay\<close> with the
  constant 3: whenever \<open>onDisconnect\<close> decides to retry, whatever retries came before, it
  calls \<open>getJitterDelay(3)\<close> and sets the timer with that delay; and over the whole
  lifetime of an instance every call of \<open>getJitterDelay\<close> has the argument 3 and every
  timer has the jitter delay of attempt 3.
\<close>

theorem retry_jitter_attempt_is_3:
  "list_all (jitter_of_attempt_3 e) (effects (lifetime e req (newConnection script) stimuli))
   \<and> (\<not> (truthy (pairingCode req) \<and> isUnrecoverableRequestError e err)
        \<and> (retry req \<or> initiallyConnected w) \<longrightarrow>
      effects (snd (onDisconnect e req 0 err w)) =
        effects w @ [Dispatch DestroyConnection, Dispatch (SetRemoteJoinCode ''''),
                     Dispatch ClearAllPairedRemotes, GetJitterDelay 3,
                     SetTimeout (getJitterDelay e 3)])"
proof -
  have "list_all (jitter_of_attempt_3 e) (effects (newConnection script))"
    by (simp add: newConnection_def)
  then have whole:
    "list_all (jitter_of_attempt_3 e) (effects (lifetime e req (newConnection script) stimuli))"
    by (rule lifetime_jitter_of_attempt_3)
  have one: "\<not> (truthy (pairingCode req) \<and> isUnrecoverableRequestError e err)
        \<and> (retry req \<or> initiallyConnected w) \<longrightarrow>
      effects (snd (onDisconnect e req 0 err w)) =
        effects w @ [Dispatch DestroyConnection, Dispatch (SetRemoteJoinCode ''''),
                     Dispatch ClearAllPairedRemotes, GetJitterDelay 3,
                     SetTimeout (getJitterDelay e 3)]"
    using onDisconnect_gate_open_0 [of req e err w]
    by (simp add: emit_simps dispatch_simps)
  show ?thesis using whole one by simp
qed

theorem retry_jitter_attempt_is_3_witness:
  "effects (lifetime (example_env False) \<lparr> pairingCode = None, retry = True \<rparr>
      (newConnection [Refuse (TransportError 503), Refuse (TransportError 503)])
      [Thunk_dispatched False 1])
    = [AddListener UNRECOVERABLE_DISCONNECT, AddListener REMOTE_JOIN_CODE_CHANGE,
       AddListener REGISTRATION_UPDATED, AddListener CLIENT_JOINED, AddListener CLIENT_LEFT,
       Connect \<lparr> backend = False, joinAsSpot = True, joinCodeRefreshRate = 30000,
                 joinCode = None, serverConfig = ''xmpp'' \<rparr>,
       Dispatch DestroyConnection, Dispatch (SetRemoteJoinCode ''''),
       Dispatch ClearAllPairedRemotes, GetJitterDelay 3, SetTimeout 1500,
       Connect \<lparr> backend = False, joinAsSpot = True, joinCodeRefreshRate = 30000,
                 joinCode = None, serverConfig = ''xmpp'' \<rparr>,
       Dispatch DestroyConnection, Dispatch (SetRemoteJoinCode ''''),
       Dispatch ClearAllPairedRemotes, GetJitterDelay 3, SetTimeout 1500]
   \<and> list_all (jitter_of_attempt_3 (example_env False))
       (effects (lifetime (example_env False) \<lparr> pairingCode = None, retry = True \<rparr>
          (newConnection [Refuse (TransportError 503), Refuse (TransportError 503)])
          [Thunk_dispatched False 1]))
   \<and> effects (snd (onDisconnect (example_env False) \<lparr> pairingCode = None, retry = True \<rparr> 0
        (TransportError 503) (newConnection [])))
    = [Dispatch DestroyConnection, Dispatch (SetRemoteJoinCode ''''),
       Dispatch ClearAllPairedRemotes, GetJitterDelay 3, SetTimeout 1500]"
proof -
  have run: "effects (lifetime (example_env False) \<lparr> pairingCode = None, retry = True \<rparr>
      (newConnection [Refuse (TransportError 503), Refuse (TransportError 503)])
      [Thunk_dispatched False 1])
    = [AddListener UNRECOVERABLE_DISCONNECT, AddListener REMOTE_JOIN_CODE_CHANGE,
       AddListener REGISTRATION_UPDATED, AddListener CLIENT_JOINED, AddListener CLIENT_LEFT,
       Connect \<lparr> backend = False, joinAsSpot = True, joinCodeRefreshRate = 30000,
                 joinCode = None, serverConfig = ''xmpp'' \<rparr>,
       Dispatch DestroyConnection, Dispatch (SetRemoteJoinCode ''''),
       Dispatch ClearAllPairedRemotes, GetJitterDelay 3, SetTimeout 1500,
       Connect \<lparr> backend = False, joinAsSpot = True, joinCodeRefreshRate = 30000,
                 joinCode = None, serverConfig = ''xmpp'' \<rparr>,
       Dispatch DestroyConnection, Dispatch (SetRemoteJoinCode ''''),
       Dispatch ClearAllPairedRemotes, GetJitterDelay 3, SetTimeout 1500]"
    by (simp add: lifetime_def createSpotTVRemoteControlConnection_def doConnect.simps
        onDisconnect.simps createConnection_def example_env_def newConnection_def emit_def
        dispatch_def truthy_def)
  show ?thesis
    using run
      retry_jitter_attempt_is_3 [of "example_env False" "\<lparr> pairingCode = None, retry = True \<rparr>"
        "[Refuse (TransportError 503), Refuse (TransportError 503)]" "[Thunk_dispatched False 1]"
        "TransportError 503" "newConnection []"]
    by (simp add: example_env_def newConnection_def truthy_def)
qed

subsection \<open>Refreshing the long lived pairing code\<close>

lemma refresh_due:
  assumes "info = None \<or> (\<exists>i. info = Some i \<and> expires i - now < 3600000)"
  shows "generateLongLivedPairingCodeIfExpired info now answer w =
    generateLongLivedPairingCode answer w"
  using assms by (auto simp add: generateLongLivedPairingCodeIfExpired_def)

lemma refresh_not_due:
  assumes "info = Some i" and "3600000 \<le> expires i - now"
  shows "generateLongLivedPairingCodeIfExpired info now answer w = (Resolved None, w)"
  using assms by (simp add: generateLongLivedPairingCodeIfExpired_def)

text \<open>
  Claim C6. When no long lived pairing code is stored, or the stored one expires in less
  than one hour (3600000 ms) from now, \<open>generateLongLivedPairingCodeIfExpired\<close> asks the
  backend for a new code: when the backend issues one, the new info is dispatched to
  replace the stored one; when it fails, the error is passed on and nothing is dispatched;
  until it answers, the promise is pending. Otherwise the promise is resolved at once,
  the backend is not asked and nothing is dispatched.
\<close>

theorem refresh_iff_missing_or_expiring:
  "(info = None \<or> (\<exists>i. info = Some i \<and> expires i - now < 3600000) \<longrightarrow>
      generateLongLivedPairingCodeIfExpired info now (Some (Issued new_info)) w =
        (Resolved (Some (SetLongLivedPairingCodeInfo new_info)),
         w\<lparr>effects := effects w @
           [GenerateLongLivedPairingCode, Dispatch (SetLongLivedPairingCodeInfo new_info)]\<rparr>)
      \<and> generateLongLivedPairingCodeIfExpired info now (Some (Failed err)) w =
        (Rejected err, w\<lparr>effects := effects w @ [GenerateLongLivedPairingCode]\<rparr>)
      \<and> generateLongLivedPairingCodeIfExpired info now None w =
        (Pending, w\<lparr>effects := effects w @ [GenerateLongLivedPairingCode]\<rparr>))
   \<and> ((\<exists>i. info = Some i \<and> 3600000 \<le> expires i - now) \<longrightarrow>
      generateLongLivedPairingCodeIfExpired info now answer w = (Resolved None, w))"
proof -
  have fresh: "(\<exists>i. info = Some i \<and> 3600000 \<le> expires i - now) \<longrightarrow>
      generateLongLivedPairingCodeIfExpired info now answer w = (Resolved None, w)"
    using refresh_not_due by blast
  show ?thesis
    using fresh
    by (simp add: refresh_due generateLongLivedPairingCode_def emit_def dispatch_def)
qed

theorem refresh_iff_missing_or_expiring_witness:
  "generateLongLivedPairingCodeIfExpired None 1000
      (Some (Issued \<lparr> code = ''NEW'', expires = 90000000 \<rparr>)) (newConnection [])
    = (Resolved (Some (SetLongLivedPairingCodeInfo \<lparr> code = ''NEW'', expires = 90000000 \<rparr>)),
       \<lparr> initiallyConnected = False,
         effects = [GenerateLongLivedPairingCode,
                    Dispatch (SetLongLivedPairingCodeInfo \<lparr> code = ''NEW'', expires = 90000000 \<rparr>)],
         answers = [] \<rparr>)
   \<and> generateLongLivedPairingCodeIfExpired (Some \<lparr> code = ''OLD'', expires = 3600999 \<rparr>) 1000
      (Some (Issued \<lparr> code = ''NEW'', expires = 90000000 \<rparr>)) (newConnection [])
    = (Resolved (Some (SetLongLivedPairingCodeInfo \<lparr> code = ''NEW'', expires = 90000000 \<rparr>)),
       \<lparr> initiallyConnected = False,
         effects = [GenerateLongLivedPairingCode,
                    Dispatch (SetLongLivedPairingCodeInfo \<lparr> code = ''NEW'', expires = 90000000 \<rparr>)],
         answers = [] \<rparr>)
   \<and> generateLongLivedPairingCodeIfExpired (Some \<lparr> code = ''OLD'', expires = 3601000 \<rparr>) 1000
      (Some (Issued \<lparr> code = ''NEW'', expires = 90000000 \<rparr>)) (newConnection [])
    = (Resolved None, newConnection [])"
  using refresh_iff_missing_or_expiring [of None 1000
        "\<lparr> code = ''NEW'', expires = 90000000 \<rparr>" "newConnection []"]
    refresh_iff_missing_or_expiring [of "Some \<lparr> code = ''OLD'', expires = 3600999 \<rparr>" 1000
        "\<lparr> code = ''NEW'', expires = 90000000 \<rparr>" "newConnection []"]
    refresh_iff_missing_or_expiring [of "Some \<lparr> code = ''OLD'', expires = 3601000 \<rparr>" 1000
        _ "newConnection []" _ "Some (Issued \<lparr> code = ''NEW'', expires = 90000000 \<rparr>)"]
  by (simp add: newConnection_def)

text \<open>
  Claim C7, as stated: two invocations before either resolves make at most one backend
  request. It fails: nothing records a request in flight. With no code stored and the
  backend not having answered the first invocation, the second asks the backend again.
\<close>

theorem refresh_twice_asks_twice:
  "generateLongLivedPairingCodeIfExpired None 1000 None (newConnection [])
    = (Pending,
       \<lparr> initiallyConnected = False, effects = [GenerateLongLivedPairingCode],
         answers = [] \<rparr>)
   \<and> generateLongLivedPairingCodeIfExpired None 1001 None
       \<lparr> initiallyConnected = False, effects = [GenerateLongLivedPairingCode], answers = [] \<rparr>
    = (Pending,
       \<lparr> initiallyConnected = False,
         effects = [GenerateLongLivedPairingCode, GenerateLongLivedPairingCode],
         answers = [] \<rparr>)"
  by (simp add: generateLongLivedPairingCodeIfExpired_def generateLongLivedPairingCode_def
      newConnection_def emit_def)

text \<open>
  Claim C7, amended. Each invocation decides on its own, from the stored code and the
  clock; there is no request in flight to wait for. Of two invocations before either
  resolves (the stored code is the same for both, the clock has not gone back): when the
  first finds the code missing or expiring within the hour, both ask the backend, two
  requests in all; when the code only comes within the hour between the two, the second
  alone asks; when the second still finds an hour or more left, neither asks.
\<close>

theorem refresh_twice_requests:
  assumes "now1 \<le> now2"
  shows
    "(info = None \<or> (\<exists>i. info = Some i \<and> expires i - now1 < 3600000) \<longrightarrow>
        effects (snd (generateLongLivedPairingCodeIfExpired info now2 None
          (snd (generateLongLivedPairingCodeIfExpired info now1 None w))))
        = effects w @ [GenerateLongLivedPairingCode, GenerateLongLivedPairingCode])
     \<and> ((\<exists>i. info = Some i \<and> expires i - now2 < 3600000 \<and> 3600000 \<le> expires i - now1) \<longrightarrow>
        effects (snd (generateLongLivedPairingCodeIfExpired info now2 None
          (snd (generateLongLivedPairingCodeIfExpired info now1 None w))))
        = effects w @ [GenerateLongLivedPairingCode])
     \<and> ((\<exists>i. info = Some i \<and> 3600000 \<le> expires i - now2) \<longrightarrow>
        effects (snd (generateLongLivedPairingCodeIfExpired info now2 None
          (snd (generateLongLivedPairingCodeIfExpired info now1 None w))))
        = effects w)"
  using assms
  by (auto simp add: generateLongLivedPairingCodeIfExpired_def generateLongLivedPairingCode_def
      emit_def)

theorem refresh_twice_requests_witness:
  "effects (snd (generateLongLivedPairingCodeIfExpired
        (Some \<lparr> code = ''OLD'', expires = 3600999 \<rparr>) 1001 None
        (snd (generateLongLivedPairingCodeIfExpired
          (Some \<lparr> code = ''OLD'', expires = 3600999 \<rparr>) 1000 None (newConnection [])))))
    = [GenerateLongLivedPairingCode, GenerateLongLivedPairingCode]
   \<and> effects (snd (generateLongLivedPairingCodeIfExpired
        (Some \<lparr> code = ''OLD'', expires = 3601000 \<rparr>) 1001 None
        (snd (generateLongLivedPairingCodeIfExpired
          (Some \<lparr> code = ''OLD'', expires = 3601000 \<rparr>) 1000 None (newConnection [])))))
    = [GenerateLongLivedPairingCode]
   \<and> effects (snd (generateLongLivedPairingCodeIfExpired
        (Some \<lparr> code = ''OLD'', expires = 3601001 \<rparr>) 1001 None
        (snd (generateLongLivedPairingCodeIfExpired
          (Some \<lparr> code = ''OLD'', expires = 3601001 \<rparr>) 1000 None (newConnection [])))))
    = []"
proof -
  have le: "(1000::int) \<le> 1001" by simp
  show ?thesis
    using refresh_twice_requests [OF le, of "Some \<lparr> code = ''OLD'', expires = 3600999 \<rparr>"
        "newConnection []"]
      refresh_twice_requests [OF le, of "Some \<lparr> code = ''OLD'', expires = 3601000 \<rparr>"
        "newConnection []"]
      refresh_twice_requests [OF le, of "Some \<lparr> code = ''OLD'', expires = 3601001 \<rparr>"
        "newConnection []"]
    by (simp add: newConnection_def)
qed

subsection \<open>The explicit disconnect\<close>

lemma doConnect_extends_effects:
  assumes "\<exists>xs. effects w = base @ xs"
  shows "\<exists>xs. effects (snd (doConnect e req n w)) = base @ xs"
  using _ _ _ _ _ _ assms
  by (rule doConnect_preserves [where P = "\<lambda>w. \<exists>xs. effects w = base @ xs"])
     (auto simp add: emit_simps dispatch_simps)

lemma onDisconnect_tears_down_first:
  "\<exists>xs. effects (snd (onDisconnect e req n err w)) =
     (effects w @ [Dispatch DestroyConnection, Dispatch (SetRemoteJoinCode ''''),
                   Dispatch ClearAllPairedRemotes]) @ xs"
proof -
  let ?base = "effects w @ [Dispatch DestroyConnection, Dispatch (SetRemoteJoinCode ''''),
      Dispatch ClearAllPairedRemotes]"
  consider (unrecoverable) "truthy (pairingCode req)" "isUnrecoverableRequestError e err"
    | (gate_open) "\<not> (truthy (pairingCode req) \<and> isUnrecoverableRequestError e err)"
        "retry req \<or> initiallyConnected w"
    | (gate_closed) "\<not> (truthy (pairingCode req) \<and> isUnrecoverableRequestError e err)"
        "\<not> retry req" "\<not> initiallyConnected w"
    by blast
  then show ?thesis
  proof cases
    case unrecoverable
    then show ?thesis by (simp add: onDisconnect_unrecoverable dispatch_simps)
  next
    case gate_closed
    then show ?thesis by (simp add: onDisconnect_gate_closed dispatch_simps)
  next
    case gate_open
    show ?thesis
    proof (cases n)
      case 0
      then show ?thesis
        using gate_open by (simp add: onDisconnect_gate_open_0 dispatch_simps emit_simps)
    next
      case (Suc m)
      let ?w = "emit (SetTimeout (getJitterDelay e 3))
          (emit (GetJitterDelay 3)
            (dispatch ClearAllPairedRemotes
              (dispatch (SetRemoteJoinCode '''') (dispatch DestroyConnection w))))"
      have "\<exists>xs. effects ?w = ?base @ xs"
        by (simp add: dispatch_simps emit_simps)
      then have "\<exists>xs. effects (snd (doConnect e req m ?w)) = ?base @ xs"
        by (rule doConnect_extends_effects)
      then show ?thesis
        using Suc gate_open by (simp add: onDisconnect_gate_open_Suc)
    qed
  qed
qed

text \<open>
  Claim C9, as stated: an explicit disconnect closes the session, clears the stored join
  code and the paired remotes, and never triggers a retry. It fails on the clearing:
  \<open>disconnectSpotTvRemoteControl\<close> has no access to \<open>dispatch\<close>; with a connection it
  calls \<open>disconnect\<close> on the remote control service and does nothing else.
\<close>

theorem explicit_disconnect_dispatches_nothing:
  "disconnectSpotTvRemoteControl True (Resolved ())
      \<lparr> initiallyConnected = True, effects = [Dispatch (SetRemoteJoinCode ''123456'')],
        answers = [] \<rparr>
    = (Resolved (),
       \<lparr> initiallyConnected = True,
         effects = [Dispatch (SetRemoteJoinCode ''123456''), Disconnect],
         answers = [] \<rparr>)"
  by (simp add: disconnectSpotTvRemoteControl_def emit_def)

text \<open>
  Claim C9, amended. An explicit disconnect request resolves at once, doing nothing, when
  the remote control service has no connection; with a connection it calls \<open>disconnect\<close>
  on the service and settles as that call does. It dispatches no action and sets no timer:
  it neither clears the join code and the paired remotes nor triggers a retry. The join
  code and the paired remotes are cleared by \<open>onDisconnect\<close>, as the first thing it does,
  when a connect attempt fails or the service reports an unrecoverable disconnect.
\<close>

theorem explicit_disconnect_closes_only:
  "disconnectSpotTvRemoteControl False closed w = (Resolved (), w)
   \<and> disconnectSpotTvRemoteControl True closed w = (closed, w\<lparr>effects := effects w @ [Disconnect]\<rparr>)
   \<and> take 3 (drop (length (effects w)) (effects (snd (onDisconnect e req n err w)))) =
       [Dispatch DestroyConnection, Dispatch (SetRemoteJoinCode ''''),
        Dispatch ClearAllPairedRemotes]"
proof -
  obtain xs where "effects (snd (onDisconnect e req n err w)) =
     (effects w @ [Dispatch DestroyConnection, Dispatch (SetRemoteJoinCode ''''),
                   Dispatch ClearAllPairedRemotes]) @ xs"
    using onDisconnect_tears_down_first by blast
  then have "take 3 (drop (length (effects w)) (effects (snd (onDisconnect e req n err w)))) =
       [Dispatch DestroyConnection, Dispatch (SetRemoteJoinCode ''''),
        Dispatch ClearAllPairedRemotes]"
    by simp
  then show ?thesis
    by (simp add: disconnectSpotTvRemoteControl_def emit_def)
qed

theorem explicit_disconnect_closes_only_witness:
  "disconnectSpotTvRemoteControl False Pending (newConnection []) = (Resolved (), newConnection [])
   \<and> disconnectSpotTvRemoteControl True (Resolved ())
        (snd (disconnectSpotTvRemoteControl True (Resolved ()) (newConnection [])))
      = (Resolved (),
         \<lparr> initiallyConnected = False, effects = [Disconnect, Disconnect], answers = [] \<rparr>)
   \<and> take 3 (drop 0 (effects (snd (onDisconnect (example_env False)
        \<lparr> pairingCode = None, retry = True \<rparr> 1 (TransportError 503)
        (newConnection [Accept example_reply])))))
      = [Dispatch DestroyConnection, Dispatch (SetRemoteJoinCode ''''),
         Dispatch ClearAllPairedRemotes]"
  using explicit_disconnect_closes_only [of Pending "newConnection []" "example_env False"
      "\<lparr> pairingCode = None, retry = True \<rparr>" 1 "TransportError 503"]
    explicit_disconnect_closes_only [of "Resolved ()" "newConnection []"]
    explicit_disconnect_closes_only [of "Resolved ()"
      "\<lparr> initiallyConnected = False, effects = [Disconnect], answers = [] \<rparr>"]
    explicit_disconnect_closes_only [of _ "newConnection [Accept example_reply]"
      "example_env False" "\<lparr> pairingCode = None, retry = True \<rparr>" 1 "TransportError 503"]
  by (simp add: newConnection_def)

end
